theory Spec2Isabelle
  imports Main "HOL-Library.Sublist"
begin

section \<open>Data model\<close>

text \<open>
  The types of the diff engine and of the YAML library, as far as the report code reads
  them. Field names are those of the Go structs; where two structs share a field name the
  fields are written qualified (\<open>Detail.From\<close>, \<open>Report.From\<close>).

  A Go pointer that may be nil is an \<open>option\<close>. A Go slice is a list; the nil slice
  and the empty slice are both \<open>[]\<close>.
\<close>

datatype NodeKind = DocumentNode | SequenceNode | MappingNode | ScalarNode | AliasNode | NoKind

text \<open>
  A \<open>yaml.Node\<close>: its kind, tag and scalar value, and its children, a slice of node
  pointers.
\<close>

datatype Node = Node (Kind: NodeKind) (Tag: string) (Value: string) (Content: "Node option list")

text \<open>
  The kind of a detail is a rune in the source, compared against the four constants
  \<open>ADDITION\<close>, \<open>REMOVAL\<close>, \<open>MODIFICATION\<close> and \<open>ORDERCHANGE\<close>, which are declared
  in another file. They are four distinct runes; every other rune is \<open>OtherKind\<close>.
\<close>

datatype DetailKind = ADDITION | REMOVAL | MODIFICATION | ORDERCHANGE | OtherKind int

record Detail =
  Kind :: DetailKind
  From :: "Node option"
  To :: "Node option"

text \<open>The path type \<open>'p\<close> is opaque: the code only asks for its string form.\<close>

record 'p Diff =
  Path :: "'p option"
  Details :: "Detail list"

record InputFile =
  Location :: string
  Documents :: "Node option list"

record 'p Report =
  From :: InputFile
  To :: InputFile
  Diffs :: "'p Diff list"

subsection \<open>Errors and panics\<close>

text \<open>
  An error value is either one the report code builds itself with \<open>fmt.Errorf\<close>, the
  short-write error of the buffered writer, or an error handed back by a library
  (\<open>LibError\<close>, carrying its message).
\<close>

datatype error =
    ExcludeNotGoPatch string
  | UnsupportedDetailType DetailKind
  | ErrShortWrite
  | LibError string

datatype panic = NilDereference | MustCompileFailed error

text \<open>A call either returns its results or panics.\<close>

datatype 'a outcome = Returns 'a | Panics panic

subsection \<open>External collaborators\<close>

text \<open>
  Functions of other packages and of other files of this package, which the report code
  calls and whose code is not part of the development, are parameters:
  \<^item> \<open>ParsePathStringUnsafe\<close> and \<open>PathString\<close> (\<open>Path.String()\<close>) of the path library;
  \<^item> \<open>Compile\<close> and \<open>MatchString\<close> of the regular expression library;
  \<^item> \<open>ToCompactJSON\<close>, the compact serializer of a node;
  \<^item> \<open>humanReadableType\<close> and \<open>pathToString\<close>, helpers of this package;
  \<^item> \<open>runeString\<close>, the conversion \<open>string(kind)\<close> of a rune;
  \<^item> \<open>DecodeString\<close> (base64), \<open>Dump\<close> (hex), \<open>MarshalStrings\<close> and \<open>MarshalReport\<close>
    (\<open>json.Marshal\<close> at the two types it is used at).
\<close>

record JSONDiffDetail =
  Kind :: string
  Addition :: string
  Removal :: string

record JSONDiff =
  Path :: string
  Details :: "JSONDiffDetail list"

record JSONDiffSummary =
  Changes :: int

record JSONReportSpec =
  Summary :: JSONDiffSummary
  Differences :: "JSONDiff list"

record ('p, 're) env =
  ParsePathStringUnsafe :: "string \<Rightarrow> error + 'p"
  PathString :: "'p \<Rightarrow> string"
  Compile :: "string \<Rightarrow> error + 're"
  MatchString :: "'re \<Rightarrow> string \<Rightarrow> bool"
  ToCompactJSON :: "Node \<Rightarrow> error + string"
  humanReadableType :: "Node option \<Rightarrow> string outcome"
  pathToString :: "'p option \<Rightarrow> bool \<Rightarrow> bool \<Rightarrow> string"
  runeString :: "DetailKind \<Rightarrow> string"
  DecodeString :: "string \<Rightarrow> error + string"
  Dump :: "string \<Rightarrow> string"
  MarshalStrings :: "string list \<Rightarrow> error + string"
  MarshalReport :: "JSONReportSpec \<Rightarrow> error + string"

section \<open>Report filter\<close>

text \<open>
  \<open>Report.filter\<close>: the loop over \<open>r.Diffs\<close> appends each diff whose path satisfies
  \<open>hasPath\<close> to the result, which starts empty.
\<close>

fun filter_loop :: "('p option \<Rightarrow> bool) \<Rightarrow> 'p Diff list \<Rightarrow> 'p Diff list \<Rightarrow> 'p Diff list" where
  "filter_loop hasPath [] result = result"
| "filter_loop hasPath (diff # diffs) result =
     filter_loop hasPath diffs (if hasPath (Diff.Path diff) then result @ [diff] else result)"

definition filter_report :: "'p Report \<Rightarrow> ('p option \<Rightarrow> bool) \<Rightarrow> 'p Report" where
  "filter_report r hasPath =
     \<lparr>Report.From = Report.From r, Report.To = Report.To r,
      Report.Diffs = filter_loop hasPath (Report.Diffs r) []\<rparr>"

text \<open>The predicate of \<open>Report.Filter\<close>: the loop over the given path strings.\<close>

fun Filter_hasPath :: "('p, 're) env \<Rightarrow> string list \<Rightarrow> 'p option \<Rightarrow> bool" where
  "Filter_hasPath E [] filterPath = False"
| "Filter_hasPath E (pathString # paths) filterPath =
     (if (case ParsePathStringUnsafe E pathString of
            Inl err \<Rightarrow> False
          | Inr path \<Rightarrow>
              (case filterPath of
                 None \<Rightarrow> False
               | Some fp \<Rightarrow> PathString E path = PathString E fp))
      then True
      else Filter_hasPath E paths filterPath)"

definition Filter :: "('p, 're) env \<Rightarrow> 'p Report \<Rightarrow> string list \<Rightarrow> 'p Report" where
  "Filter E r paths =
     (if length paths = 0 then r else filter_report r (Filter_hasPath E paths))"

definition isGoPath :: "string \<Rightarrow> bool" where
  "isGoPath p = prefix ''/'' p"

text \<open>
  The first loop of \<open>Report.Exclude\<close>: \<open>ps\<close> is allocated with one empty string per
  path and filled by index; the loop returns at the first path that is not a Go Patch
  path or does not parse.
\<close>

fun Exclude_paths :: "('p, 're) env \<Rightarrow> nat \<Rightarrow> string list \<Rightarrow> string list \<Rightarrow> error + string list" where
  "Exclude_paths E i [] ps = Inr ps"
| "Exclude_paths E i (pathString # paths) ps =
     (if \<not> isGoPath pathString then Inl (ExcludeNotGoPatch pathString)
      else (case ParsePathStringUnsafe E pathString of
              Inl err \<Rightarrow> Inl err
            | Inr path \<Rightarrow> Exclude_paths E (Suc i) paths (ps[i := PathString E path])))"

text \<open>
  The predicate of \<open>Report.Exclude\<close>. The \<open>err\<close> it reads is the named result of
  \<open>Exclude\<close>, which is still nil when the predicate runs.
\<close>

fun Exclude_hasPath :: "('p, 're) env \<Rightarrow> error option \<Rightarrow> string list \<Rightarrow> 'p option \<Rightarrow> bool" where
  "Exclude_hasPath E err [] filterPath = True"
| "Exclude_hasPath E err (pathString # ps) filterPath =
     (if err = None \<and>
         (case filterPath of
            None \<Rightarrow> False
          | Some fp \<Rightarrow> prefix pathString (PathString E fp))
      then False
      else Exclude_hasPath E err ps filterPath)"

definition Exclude :: "('p, 're) env \<Rightarrow> 'p Report \<Rightarrow> string list \<Rightarrow> 'p Report \<times> error option" where
  "Exclude E r paths =
     (if length paths = 0 then (r, None)
      else (case Exclude_paths E 0 paths (replicate (length paths) '''') of
              Inl err \<Rightarrow> (r, Some err)
            | Inr ps \<Rightarrow> (filter_report r (Exclude_hasPath E None ps), None)))"

text \<open>
  \<open>regexp.MustCompile\<close> over the patterns, in order: it panics at the first pattern
  that does not compile. Every slot of \<open>regexps\<close> is assigned before the predicate runs.
\<close>

fun MustCompile_all :: "('p, 're) env \<Rightarrow> string list \<Rightarrow> 're list outcome" where
  "MustCompile_all E [] = Returns []"
| "MustCompile_all E (pat # pattern) =
     (case Compile E pat of
        Inl err \<Rightarrow> Panics (MustCompileFailed err)
      | Inr re \<Rightarrow>
          (case MustCompile_all E pattern of
             Panics p \<Rightarrow> Panics p
           | Returns regexps \<Rightarrow> Returns (re # regexps)))"

fun FilterRegexp_hasPath :: "('p, 're) env \<Rightarrow> 're list \<Rightarrow> 'p option \<Rightarrow> bool" where
  "FilterRegexp_hasPath E [] filterPath = False"
| "FilterRegexp_hasPath E (regexp # regexps) filterPath =
     (if (case filterPath of
            None \<Rightarrow> False
          | Some fp \<Rightarrow> MatchString E regexp (PathString E fp))
      then True
      else FilterRegexp_hasPath E regexps filterPath)"

definition FilterRegexp :: "('p, 're) env \<Rightarrow> 'p Report \<Rightarrow> string list \<Rightarrow> 'p Report outcome" where
  "FilterRegexp E r pattern =
     (if length pattern = 0 then Returns r
      else (case MustCompile_all E pattern of
              Panics p \<Rightarrow> Panics p
            | Returns regexps \<Rightarrow> Returns (filter_report r (FilterRegexp_hasPath E regexps))))"

fun ExcludeRegexp_hasPath :: "('p, 're) env \<Rightarrow> 're list \<Rightarrow> 'p option \<Rightarrow> bool" where
  "ExcludeRegexp_hasPath E [] filterPath = True"
| "ExcludeRegexp_hasPath E (regexp # regexps) filterPath =
     (if (case filterPath of
            None \<Rightarrow> False
          | Some fp \<Rightarrow> MatchString E regexp (PathString E fp))
      then False
      else ExcludeRegexp_hasPath E regexps filterPath)"

definition ExcludeRegexp :: "('p, 're) env \<Rightarrow> 'p Report \<Rightarrow> string list \<Rightarrow> 'p Report outcome" where
  "ExcludeRegexp E r pattern =
     (if length pattern = 0 then Returns r
      else (case MustCompile_all E pattern of
              Panics p \<Rightarrow> Panics p
            | Returns regexps \<Rightarrow> Returns (filter_report r (ExcludeRegexp_hasPath E regexps))))"

section \<open>Report renderer\<close>

text \<open>
  \<open>JSONReport\<close> embeds the \<open>Report\<close> and carries the output flags (the unused
  floating-point threshold is left out).
\<close>

record 'p JSONReport =
  Report :: "'p Report"
  NoTableStyle :: bool
  DoNotInspectCerts :: bool
  OmitHeader :: bool
  UseGoPatchPaths :: bool

definition jsonString :: "('p, 're) env \<Rightarrow> Node option \<Rightarrow> error + string" where
  "jsonString E node =
     (case node of
        None \<Rightarrow> Inr ''null''
      | Some n \<Rightarrow> ToCompactJSON E n)"

text \<open>
  The detail renderers return a pair in Go, the detail and the error; on an error the
  detail built so far is returned with it, so the pair is kept. Reading a field through a
  nil node pointer panics.
\<close>

definition generateJSONDetailOutputModification ::
  "('p, 're) env \<Rightarrow> Detail \<Rightarrow> (JSONDiffDetail \<times> error option) outcome" where
  "generateJSONDetailOutputModification E detail =
     (case humanReadableType E (Detail.From detail) of
        Panics p \<Rightarrow> Panics p
      | Returns fromType \<Rightarrow>
     (case humanReadableType E (Detail.To detail) of
        Panics p \<Rightarrow> Panics p
      | Returns toType \<Rightarrow>
     (let jsonDetail = \<lparr>JSONDiffDetail.Kind = runeString E (Detail.Kind detail),
                         Addition = '''', Removal = ''''\<rparr>
      in if fromType = ''string'' \<and> toType = ''string'' then
           (case Detail.To detail of
              None \<Rightarrow> Panics NilDereference
            | Some to \<Rightarrow>
           (case Detail.From detail of
              None \<Rightarrow> Panics NilDereference
            | Some from \<Rightarrow>
                Returns (jsonDetail\<lparr>Addition := Node.Value to, Removal := Node.Value from\<rparr>, None)))
         else if fromType = ''binary'' \<and> toType = ''binary'' then
           (case Detail.From detail of
              None \<Rightarrow> Panics NilDereference
            | Some fromNode \<Rightarrow>
           (case DecodeString E (Node.Value fromNode) of
              Inl err \<Rightarrow> Returns (jsonDetail, Some err)
            | Inr from \<Rightarrow>
           (case Detail.To detail of
              None \<Rightarrow> Panics NilDereference
            | Some toNode \<Rightarrow>
           (case DecodeString E (Node.Value toNode) of
              Inl err \<Rightarrow> Returns (jsonDetail, Some err)
            | Inr to \<Rightarrow>
                Returns (jsonDetail\<lparr>Addition := Dump E to, Removal := Dump E from\<rparr>, None)))))
         else
           (case jsonString E (Detail.From detail) of
              Inl err \<Rightarrow> Returns (jsonDetail, Some err)
            | Inr from \<Rightarrow>
           (case jsonString E (Detail.To detail) of
              Inl err \<Rightarrow> Returns (jsonDetail, Some err)
            | Inr to \<Rightarrow>
                Returns (jsonDetail\<lparr>Addition := to, Removal := from\<rparr>, None))))))"

text \<open>
  The loop of \<open>asJSONArray\<close>: \<open>result\<close> is allocated with one empty string per entry
  and filled by index, first with the entry's value and then, when that value is
  empty, with its compact serialization.
\<close>

fun asJSONArray_loop ::
  "('p, 're) env \<Rightarrow> nat \<Rightarrow> Node option list \<Rightarrow> string list \<Rightarrow> (error + string list) outcome" where
  "asJSONArray_loop E i [] result = Returns (Inr result)"
| "asJSONArray_loop E i (entry # entries) result =
     (case entry of
        None \<Rightarrow> Panics NilDereference
      | Some n \<Rightarrow>
          (let result1 = result[i := Node.Value n]
           in if Node.Value n = '''' then
                (case jsonString E entry of
                   Inl err \<Rightarrow> Returns (Inl err)
                 | Inr s \<Rightarrow> asJSONArray_loop E (Suc i) entries (result1[i := s]))
              else asJSONArray_loop E (Suc i) entries result1))"

definition asJSONArray :: "('p, 're) env \<Rightarrow> Node option \<Rightarrow> (error + string) outcome" where
  "asJSONArray E sequenceNode =
     (case sequenceNode of
        None \<Rightarrow> Panics NilDereference
      | Some sn \<Rightarrow>
          (case asJSONArray_loop E 0 (Node.Content sn)
                  (replicate (length (Node.Content sn)) '''') of
             Panics p \<Rightarrow> Panics p
           | Returns (Inl err) \<Rightarrow> Returns (Inl err)
           | Returns (Inr result) \<Rightarrow> Returns (MarshalStrings E result)))"

definition generateJSONDetailOutputOrderchange ::
  "('p, 're) env \<Rightarrow> Detail \<Rightarrow> (JSONDiffDetail \<times> error option) outcome" where
  "generateJSONDetailOutputOrderchange E detail =
     (let jsonDetail = \<lparr>JSONDiffDetail.Kind = runeString E (Detail.Kind detail),
                         Addition = '''', Removal = ''''\<rparr>
      in case Detail.From detail of
           None \<Rightarrow> Panics NilDereference
         | Some fromNode \<Rightarrow>
             if Node.Kind fromNode = SequenceNode then
               (case asJSONArray E (Detail.From detail) of
                  Panics p \<Rightarrow> Panics p
                | Returns (Inl err) \<Rightarrow> Returns (jsonDetail, Some err)
                | Returns (Inr from) \<Rightarrow>
               (case asJSONArray E (Detail.To detail) of
                  Panics p \<Rightarrow> Panics p
                | Returns (Inl err) \<Rightarrow> Returns (jsonDetail, Some err)
                | Returns (Inr to) \<Rightarrow>
                    Returns (jsonDetail\<lparr>Addition := to, Removal := from\<rparr>, None)))
             else Returns (jsonDetail, None))"

text \<open>The zero value \<open>JSONDiffDetail{}\<close>.\<close>

definition JSONDiffDetail_zero :: JSONDiffDetail where
  "JSONDiffDetail_zero = \<lparr>JSONDiffDetail.Kind = '''', Addition = '''', Removal = ''''\<rparr>"

definition generateJSONDetailOutput ::
  "('p, 're) env \<Rightarrow> Detail \<Rightarrow> (JSONDiffDetail \<times> error option) outcome" where
  "generateJSONDetailOutput E detail =
     (case Detail.Kind detail of
        ADDITION \<Rightarrow>
          (case jsonString E (Detail.To detail) of
             Inl err \<Rightarrow> Returns (JSONDiffDetail_zero, Some err)
           | Inr s \<Rightarrow>
               Returns (\<lparr>JSONDiffDetail.Kind = runeString E ADDITION,
                         Addition = s, Removal = ''''\<rparr>, None))
      | REMOVAL \<Rightarrow>
          (case jsonString E (Detail.From detail) of
             Inl err \<Rightarrow> Returns (JSONDiffDetail_zero, Some err)
           | Inr s \<Rightarrow>
               Returns (\<lparr>JSONDiffDetail.Kind = runeString E REMOVAL,
                         Addition = '''', Removal = s\<rparr>, None))
      | MODIFICATION \<Rightarrow> generateJSONDetailOutputModification E detail
      | ORDERCHANGE \<Rightarrow> generateJSONDetailOutputOrderchange E detail
      | OtherKind c \<Rightarrow>
          Returns (JSONDiffDetail_zero, Some (UnsupportedDetailType (Detail.Kind detail))))"

text \<open>
  The loop of \<open>generateJSONDiffOutput\<close> fills \<open>details\<close> by index and returns at the
  first error.
\<close>

fun generateJSONDiffOutput_loop ::
  "('p, 're) env \<Rightarrow> nat \<Rightarrow> Detail list \<Rightarrow> JSONDiffDetail list \<Rightarrow> (error + JSONDiffDetail list) outcome" where
  "generateJSONDiffOutput_loop E i [] details = Returns (Inr details)"
| "generateJSONDiffOutput_loop E i (detail # rest) details =
     (case generateJSONDetailOutput E detail of
        Panics p \<Rightarrow> Panics p
      | Returns (generatedOutput, Some err) \<Rightarrow> Returns (Inl err)
      | Returns (generatedOutput, None) \<Rightarrow>
          generateJSONDiffOutput_loop E (Suc i) rest (details[i := generatedOutput]))"

definition generateJSONDiffOutput ::
  "('p, 're) env \<Rightarrow> 'p Diff \<Rightarrow> bool \<Rightarrow> bool \<Rightarrow> (error + JSONDiff) outcome" where
  "generateJSONDiffOutput E diff useGoPatchPaths showPathRoot =
     (case generateJSONDiffOutput_loop E 0 (Diff.Details diff)
             (replicate (length (Diff.Details diff)) JSONDiffDetail_zero) of
        Panics p \<Rightarrow> Panics p
      | Returns (Inl err) \<Rightarrow> Returns (Inl err)
      | Returns (Inr details) \<Rightarrow>
          Returns (Inr \<lparr>JSONDiff.Path = pathToString E (Diff.Path diff) useGoPatchPaths showPathRoot,
                        JSONDiff.Details = details\<rparr>))"

definition JSONDiff_zero :: JSONDiff where
  "JSONDiff_zero = \<lparr>JSONDiff.Path = '''', JSONDiff.Details = []\<rparr>"

fun GenReport_loop ::
  "('p, 're) env \<Rightarrow> bool \<Rightarrow> bool \<Rightarrow> nat \<Rightarrow> 'p Diff list \<Rightarrow> JSONDiff list \<Rightarrow> (error + JSONDiff list) outcome" where
  "GenReport_loop E useGoPatchPaths showPathRoot i [] diffs = Returns (Inr diffs)"
| "GenReport_loop E useGoPatchPaths showPathRoot i (diff # rest) diffs =
     (case generateJSONDiffOutput E diff useGoPatchPaths showPathRoot of
        Panics p \<Rightarrow> Panics p
      | Returns (Inl err) \<Rightarrow> Returns (Inl err)
      | Returns (Inr jsonDiff) \<Rightarrow>
          GenReport_loop E useGoPatchPaths showPathRoot (Suc i) rest (diffs[i := jsonDiff]))"

definition GenReport :: "('p, 're) env \<Rightarrow> 'p JSONReport \<Rightarrow> (error + JSONReportSpec) outcome" where
  "GenReport E report =
     (let rdiffs = Report.Diffs (Report report);
          showPathRoot = (length (Documents (Report.From (Report report))) > 1)
      in case GenReport_loop E (UseGoPatchPaths report) showPathRoot 0 rdiffs
                (replicate (length rdiffs) JSONDiff_zero) of
           Panics p \<Rightarrow> Panics p
         | Returns (Inl err) \<Rightarrow> Returns (Inl err)
         | Returns (Inr diffs) \<Rightarrow>
             Returns (Inr \<lparr>Summary = \<lparr>Changes = int (length rdiffs)\<rparr>,
                           Differences = diffs\<rparr>))"

subsection \<open>The buffered writer\<close>

text \<open>
  \<open>bufio.Writer\<close> of the Go standard library, over a sink with state \<open>'s\<close> whose
  \<open>Write\<close> method is the parameter \<open>write\<close>: it takes the bytes and returns the new
  sink, the number of bytes it accepted and an error. The writer holds its sticky error,
  the buffered bytes and the sink. The buffer has the default size.
\<close>

record 's Writer =
  w_err :: "error option"
  w_buf :: string
  w_wr :: 's

definition defaultBufSize :: nat where
  "defaultBufSize = 4096"

definition NewWriter :: "'s \<Rightarrow> 's Writer" where
  "NewWriter out = \<lparr>w_err = None, w_buf = [], w_wr = out\<rparr>"

definition Available :: "'s Writer \<Rightarrow> nat" where
  "Available b = defaultBufSize - length (w_buf b)"

definition Flush :: "('s \<Rightarrow> string \<Rightarrow> 's \<times> nat \<times> error option) \<Rightarrow> 's Writer \<Rightarrow> 's Writer \<times> error option" where
  "Flush write b =
     (if w_err b \<noteq> None then (b, w_err b)
      else if length (w_buf b) = 0 then (b, None)
      else (case write (w_wr b) (w_buf b) of
              (out, n, werr) \<Rightarrow>
                (let e = (if n < length (w_buf b) \<and> werr = None then Some ErrShortWrite else werr)
                 in if e \<noteq> None
                    then (b\<lparr>w_buf := drop n (w_buf b), w_err := e, w_wr := out\<rparr>, e)
                    else (b\<lparr>w_buf := [], w_wr := out\<rparr>, None))))"

text \<open>A flush of a writer without error either fails or empties the buffer.\<close>

lemma Flush_progress:
  "w_err b = None \<Longrightarrow>
     w_err (fst (Flush write b)) \<noteq> None \<or> w_buf (fst (Flush write b)) = []"
  unfolding Flush_def
  by (cases "write (w_wr b) (w_buf b)") (simp add: Let_def)

function WriteString ::
  "('s \<Rightarrow> string \<Rightarrow> 's \<times> nat \<times> error option) \<Rightarrow> 's Writer \<Rightarrow> string \<Rightarrow> 's Writer \<times> error option" where
  "WriteString write b s =
     (if length s > Available b \<and> w_err b = None then
        (let n = min (Available b) (length s);
             b1 = b\<lparr>w_buf := w_buf b @ take n s\<rparr>
         in WriteString write (fst (Flush write b1)) (drop n s))
      else if w_err b \<noteq> None then (b, w_err b)
      else (b\<lparr>w_buf := w_buf b @ s\<rparr>, None))"
  by pat_completeness auto
termination
proof (relation "measure (\<lambda>(write, b, s).
        if w_err b \<noteq> None then 0
        else 2 * length s + (if Available b = 0 then 1 else 0) + 1)")
  show "wf (measure (\<lambda>(write :: 's \<Rightarrow> string \<Rightarrow> 's \<times> nat \<times> error option, b :: 's Writer, s :: string).
        if w_err b \<noteq> None then 0
        else 2 * length s + (if Available b = 0 then 1 else 0) + 1))"
    by simp
next
  fix w :: "'s \<Rightarrow> string \<Rightarrow> 's \<times> nat \<times> error option"
    and b :: "'s Writer" and s :: string and n :: nat and b1 :: "'s Writer"
  assume c: "Available b < length s \<and> w_err b = None"
    and n: "n = min (Available b) (length s)"
    and b1: "b1 = b\<lparr>w_buf := w_buf b @ take n s\<rparr>"
  let ?b2 = "fst (Flush w b1)"
  have e1: "w_err b1 = None" using c b1 by simp
  have nA: "n = Available b" using c n by simp
  from Flush_progress [OF e1, of w]
  consider (err) "w_err ?b2 \<noteq> None" | (ok) "w_err ?b2 = None" "w_buf ?b2 = []"
    by blast
  then have "(if w_err ?b2 \<noteq> None then 0
        else 2 * length (drop n s) + (if Available ?b2 = 0 then 1 else 0) + 1)
      < 2 * length s + (if Available b = 0 then 1 else 0) + 1"
  proof cases
    case err
    then show ?thesis by simp
  next
    case ok
    have av: "Available ?b2 \<noteq> 0"
      using ok by (simp add: Available_def defaultBufSize_def)
    show ?thesis
    proof (cases "Available b = 0")
      case True
      then show ?thesis using ok av nA by simp
    next
      case False
      then have "length (drop n s) < length s" using c nA by simp linarith
      then show ?thesis using ok av False by simp
    qed
  qed
  then show "((w, ?b2, drop n s), (w, b, s)) \<in> measure (\<lambda>(write, b, s).
        if w_err b \<noteq> None then 0
        else 2 * length s + (if Available b = 0 then 1 else 0) + 1)"
    using c by simp
qed

declare WriteString.simps [simp del]

text \<open>
  \<open>WriteReport\<close>: the deferred \<open>writer.Flush()\<close> runs on every return, and its result
  is not used. The model returns the sink as it is left and the error returned.
\<close>

definition WriteReport ::
  "('p, 're) env \<Rightarrow> ('s \<Rightarrow> string \<Rightarrow> 's \<times> nat \<times> error option) \<Rightarrow> 'p JSONReport \<Rightarrow> 's \<Rightarrow> ('s \<times> error option) outcome" where
  "WriteReport E write report out =
     (let writer = NewWriter out
      in case GenReport E report of
           Panics p \<Rightarrow> Panics p
         | Returns (Inl err) \<Rightarrow> Returns (w_wr (fst (Flush write writer)), Some err)
         | Returns (Inr r) \<Rightarrow>
             (case MarshalReport E r of
                Inl err \<Rightarrow> Returns (w_wr (fst (Flush write writer)), Some err)
              | Inr b \<Rightarrow>
                  (case WriteString write writer b of
                     (writer1, err) \<Rightarrow> Returns (w_wr (fst (Flush write writer1)), err))))"

section \<open>The text of a sequence element, as specified\<close>

text \<open>
  The specification's wording of the entry that order-change rendering puts into the
  array for a child element: its raw scalar value if present, else the compact
  serialization of the element, which is what the serializer \<open>ToCompactJSON\<close> returns
  for it. A value is present when it is not the empty string.
\<close>

definition elementText :: "('p, 're) env \<Rightarrow> Node \<Rightarrow> error + string" where
  "elementText E n = (if Node.Value n = '''' then ToCompactJSON E n else Inr (Node.Value n))"

section \<open>A concrete instance\<close>

text \<open>
  A small instance of the collaborators, on which the definitions can be evaluated:
  paths and compiled patterns are strings, a pattern matches the strings it is a prefix
  of, the empty path string does not parse, the pattern \<open>(\<close> does not compile, base64
  text with a \<open>!\<close> does not decode, and a node is serialized as its value in angle
  brackets.
\<close>

definition test_env :: "(string, string) env" where
  "test_env =
     \<lparr>ParsePathStringUnsafe = (\<lambda>s. if s = [] then Inl (LibError ''empty path'') else Inr s),
      PathString = (\<lambda>p. p),
      Compile = (\<lambda>s. if s = ''('' then Inl (LibError ''missing closing )'') else Inr s),
      MatchString = (\<lambda>re s. prefix re s),
      ToCompactJSON = (\<lambda>n. Inr (''<'' @ Node.Value n @ ''>'')),
      humanReadableType =
        (\<lambda>node. case node of
           None \<Rightarrow> Panics NilDereference
         | Some n \<Rightarrow>
             Returns (if Node.Tag n = ''!!str'' then ''string''
                      else if Node.Tag n = ''!!binary'' then ''binary''
                      else ''other'')),
      pathToString = (\<lambda>p useGoPatchPaths showPathRoot. case p of None \<Rightarrow> ''/'' | Some q \<Rightarrow> q),
      runeString =
        (\<lambda>k. case k of
           ADDITION \<Rightarrow> ''+'' | REMOVAL \<Rightarrow> ''-'' | MODIFICATION \<Rightarrow> ''~''
         | ORDERCHANGE \<Rightarrow> ''^'' | OtherKind c \<Rightarrow> ''?''),
      DecodeString = (\<lambda>s. if CHR ''!'' \<in> set s then Inl (LibError ''illegal base64 data'') else Inr s),
      Dump = (\<lambda>bs. ''hex '' @ bs),
      MarshalStrings = (\<lambda>ss. Inr (''['' @ concat (map (\<lambda>s. s @ '';'') ss) @ '']'')),
      MarshalReport = (\<lambda>r. Inr (''changes '' @ replicate (nat (Changes (Summary r))) CHR ''I''))\<rparr>"

definition test_file :: InputFile where
  "test_file = \<lparr>Location = ''a.yml'', Documents = [Some (Node DocumentNode [] [] [])]\<rparr>"

definition str_node :: "string \<Rightarrow> Node" where
  "str_node v = Node ScalarNode ''!!str'' v []"

definition bin_node :: "string \<Rightarrow> Node" where
  "bin_node v = Node ScalarNode ''!!binary'' v []"

definition seq_node :: "Node list \<Rightarrow> Node" where
  "seq_node ns = Node SequenceNode ''!!seq'' [] (map Some ns)"

definition map_node :: Node where
  "map_node = Node MappingNode ''!!map'' [] []"

definition test_diff :: "string option \<Rightarrow> string Diff" where
  "test_diff p =
     \<lparr>Diff.Path = p,
      Diff.Details = [\<lparr>Detail.Kind = ADDITION, Detail.From = None, Detail.To = Some (str_node ''v'')\<rparr>]\<rparr>"

definition test_report :: "string Report" where
  "test_report =
     \<lparr>Report.From = test_file, Report.To = test_file,
      Report.Diffs = [test_diff (Some ''/a/b''), test_diff None, test_diff (Some ''/c'')]\<rparr>"

text \<open>
  A sink whose every write fails, counting the calls, and a report without diffs.
\<close>

definition failing_write :: "nat \<Rightarrow> string \<Rightarrow> nat \<times> nat \<times> error option" where
  "failing_write calls p = (Suc calls, 0, Some (LibError ''write failed''))"

definition empty_json_report :: "string JSONReport" where
  "empty_json_report =
     \<lparr>Report = \<lparr>Report.From = test_file, Report.To = test_file, Report.Diffs = []\<rparr>,
      NoTableStyle = False, DoNotInspectCerts = False, OmitHeader = False,
      UseGoPatchPaths = True\<rparr>"

text \<open>
  A report whose second diff holds a modification of binaries of which the \<open>To\<close> side
  does not decode.
\<close>

definition binary_json_report :: "string JSONReport" where
  "binary_json_report =
     \<lparr>Report =
        \<lparr>Report.From = test_file, Report.To = test_file,
         Report.Diffs =
           [test_diff (Some ''/a''),
            \<lparr>Diff.Path = Some ''/b'',
             Diff.Details =
               [\<lparr>Detail.Kind = ADDITION, Detail.From = None, Detail.To = None\<rparr>,
                \<lparr>Detail.Kind = MODIFICATION, Detail.From = Some (bin_node ''QQ==''),
                 Detail.To = Some (bin_node ''!'')\<rparr>]\<rparr>]\<rparr>,
      NoTableStyle = False, DoNotInspectCerts = False, OmitHeader = False,
      UseGoPatchPaths = True\<rparr>"

section \<open>The filter primitive\<close>

lemma filter_loop_append:
  "filter_loop hasPath diffs result = result @ filter (\<lambda>diff. hasPath (Diff.Path diff)) diffs"
  by (induction diffs arbitrary: result) simp_all

text \<open>
  Claim C1. For every report and every predicate on paths, \<open>filter\<close> returns a report
  with the same \<open>From\<close> and \<open>To\<close>, whose diffs are exactly the diffs of the input
  whose path satisfies the predicate, each unchanged and in the original order.
\<close>

theorem filter_report_subsequence:
  "Report.From (filter_report r hasPath) = Report.From r \<and>
   Report.To (filter_report r hasPath) = Report.To r \<and>
   Report.Diffs (filter_report r hasPath) = filter (\<lambda>diff. hasPath (Diff.Path diff)) (Report.Diffs r)"
  by (simp add: filter_report_def filter_loop_append)

section \<open>The four filter operations\<close>

lemma Filter_hasPath_nil: "Filter_hasPath E paths None = False"
  by (induction paths) (simp_all split: sum.splits)

lemma FilterRegexp_hasPath_nil: "FilterRegexp_hasPath E regexps None = False"
  by (induction regexps) simp_all

lemma Exclude_hasPath_nil: "Exclude_hasPath E err ps None = True"
  by (induction ps) simp_all

lemma ExcludeRegexp_hasPath_nil: "ExcludeRegexp_hasPath E regexps None = True"
  by (induction regexps) simp_all

lemma filter_report_drops_nil:
  assumes "\<And>p. p = None \<Longrightarrow> \<not> hasPath p"
    and "diff \<in> set (Report.Diffs (filter_report r hasPath))"
  shows "Diff.Path diff \<noteq> None"
  using assms by (cases "Diff.Path diff") (auto simp: filter_report_def filter_loop_append)

lemma filter_report_keeps_nil:
  assumes "\<And>p. p = None \<Longrightarrow> hasPath p"
  shows "filter (\<lambda>diff. Diff.Path diff = None) (Report.Diffs (filter_report r hasPath)) =
     filter (\<lambda>diff. Diff.Path diff = None) (Report.Diffs r)"
  using assms by (auto simp: filter_report_def filter_loop_append intro: filter_cong)

text \<open>
  Claim C2, as the code has it. A nil path satisfies neither inclusion predicate and both
  exclusion predicates. Hence \<open>Filter\<close> with a non-empty path list, and
  \<open>FilterRegexp\<close> with a non-empty pattern list whose patterns compile, return no diff
  with a nil path; \<open>Exclude\<close>, whatever it is given, and \<open>ExcludeRegexp\<close>, whenever
  it returns, keep every diff with a nil path, in order.
\<close>

theorem nil_path_filtering:
  "Filter_hasPath E paths None = False \<and>
   FilterRegexp_hasPath E regexps None = False \<and>
   Exclude_hasPath E err ps None = True \<and>
   ExcludeRegexp_hasPath E regexps None = True \<and>
   (paths \<noteq> [] \<longrightarrow> (\<forall>diff \<in> set (Report.Diffs (Filter E r paths)). Diff.Path diff \<noteq> None)) \<and>
   (pattern \<noteq> [] \<and> FilterRegexp E r pattern = Returns r1 \<longrightarrow>
      (\<forall>diff \<in> set (Report.Diffs r1). Diff.Path diff \<noteq> None)) \<and>
   filter (\<lambda>diff. Diff.Path diff = None) (Report.Diffs (fst (Exclude E r paths))) =
     filter (\<lambda>diff. Diff.Path diff = None) (Report.Diffs r) \<and>
   (ExcludeRegexp E r pattern = Returns r2 \<longrightarrow>
      filter (\<lambda>diff. Diff.Path diff = None) (Report.Diffs r2) =
      filter (\<lambda>diff. Diff.Path diff = None) (Report.Diffs r))"
proof -
  have a: "paths \<noteq> [] \<longrightarrow> (\<forall>diff \<in> set (Report.Diffs (Filter E r paths)). Diff.Path diff \<noteq> None)"
    by (auto simp: Filter_def Filter_hasPath_nil dest: filter_report_drops_nil [rotated])
  have b: "pattern \<noteq> [] \<and> FilterRegexp E r pattern = Returns r1 \<longrightarrow>
      (\<forall>diff \<in> set (Report.Diffs r1). Diff.Path diff \<noteq> None)"
    by (auto simp: FilterRegexp_def FilterRegexp_hasPath_nil split: outcome.splits
          dest: filter_report_drops_nil [rotated])
  have c: "filter (\<lambda>diff. Diff.Path diff = None) (Report.Diffs (fst (Exclude E r paths))) =
     filter (\<lambda>diff. Diff.Path diff = None) (Report.Diffs r)"
    by (simp add: Exclude_def Exclude_hasPath_nil filter_report_keeps_nil split: sum.splits)
  have d: "ExcludeRegexp E r pattern = Returns r2 \<longrightarrow>
      filter (\<lambda>diff. Diff.Path diff = None) (Report.Diffs r2) =
      filter (\<lambda>diff. Diff.Path diff = None) (Report.Diffs r)"
    by (auto simp: ExcludeRegexp_def ExcludeRegexp_hasPath_nil filter_report_keeps_nil
          split: outcome.splits if_splits)
  show ?thesis
    using a b c d
    by (simp only: Filter_hasPath_nil FilterRegexp_hasPath_nil Exclude_hasPath_nil
          ExcludeRegexp_hasPath_nil simp_thms)
qed

theorem nil_path_filtering_witness:
  "[''/c''] \<noteq> [] \<and>
   FilterRegexp test_env test_report [''/a''] =
     Returns (test_report\<lparr>Report.Diffs := [test_diff (Some ''/a/b'')]\<rparr>) \<and>
   ExcludeRegexp test_env test_report [''/a''] =
     Returns (test_report\<lparr>Report.Diffs := [test_diff None, test_diff (Some ''/c'')]\<rparr>) \<and>
   list_all (\<lambda>diff. Diff.Path diff \<noteq> None) (Report.Diffs (Filter test_env test_report [''/c''])) \<and>
   list_all (\<lambda>diff. Diff.Path diff \<noteq> None) [test_diff (Some ''/a/b'')] \<and>
   filter (\<lambda>diff. Diff.Path diff = None) (Report.Diffs (fst (Exclude test_env test_report [''/c'']))) =
     [test_diff None] \<and>
   filter (\<lambda>diff. Diff.Path diff = None) [test_diff None, test_diff (Some ''/c'')] = [test_diff None]"
proof -
  have f: "FilterRegexp test_env test_report [''/a''] =
     Returns (test_report\<lparr>Report.Diffs := [test_diff (Some ''/a/b'')]\<rparr>)"
    by (simp add: FilterRegexp_def filter_report_def test_env_def test_report_def test_diff_def)
  have e: "ExcludeRegexp test_env test_report [''/a''] =
     Returns (test_report\<lparr>Report.Diffs := [test_diff None, test_diff (Some ''/c'')]\<rparr>)"
    by (simp add: ExcludeRegexp_def filter_report_def test_env_def test_report_def test_diff_def)
  have n: "filter (\<lambda>diff. Diff.Path diff = None) (Report.Diffs test_report) = [test_diff None]"
    by (simp add: test_report_def test_diff_def)
  from nil_path_filtering [of test_env "[''/c'']" "[]" None "[]" test_report "[''/a'']"
      "test_report\<lparr>Report.Diffs := [test_diff (Some ''/a/b'')]\<rparr>"
      "test_report\<lparr>Report.Diffs := [test_diff None, test_diff (Some ''/c'')]\<rparr>"]
  show ?thesis using f e n by (simp add: list_all_iff)
qed

text \<open>
  With an empty path list \<open>Filter\<close> returns the report as it is, the diff with the nil
  path included.
\<close>

theorem Filter_empty_keeps_nil_path:
  "Report.Diffs (Filter test_env test_report []) =
     [test_diff (Some ''/a/b''), test_diff None, test_diff (Some ''/c'')]"
  by (simp add: Filter_def test_report_def)

lemma Exclude_paths_error:
  "\<exists>p \<in> set paths. \<not> isGoPath p \<or> isl (ParsePathStringUnsafe E p) \<Longrightarrow>
     \<exists>err. Exclude_paths E i paths ps = Inl err"
proof (induction paths arbitrary: i ps)
  case Nil
  then show ?case by simp
next
  case (Cons pathString paths)
  show ?case
  proof (cases "\<not> isGoPath pathString \<or> isl (ParsePathStringUnsafe E pathString)")
    case True
    then show ?thesis by (auto simp: isl_def)
  next
    case False
    with Cons.prems have "\<exists>p \<in> set paths. \<not> isGoPath p \<or> isl (ParsePathStringUnsafe E p)"
      by auto
    from Cons.IH [OF this] show ?thesis using False
      by (auto split: sum.splits)
  qed
qed

text \<open>
  Claim C3. When some given path does not start with a slash or does not parse,
  \<open>Exclude\<close> returns the report it was given, unfiltered, together with an error.
\<close>

theorem Exclude_invalid_path:
  assumes "\<exists>p \<in> set paths. \<not> isGoPath p \<or> isl (ParsePathStringUnsafe E p)"
  shows "\<exists>err. Exclude E r paths = (r, Some err)"
proof -
  from assms have ne: "paths \<noteq> []" by auto
  from Exclude_paths_error [OF assms]
  obtain err where "Exclude_paths E 0 paths (replicate (length paths) '''') = Inl err"
    by blast
  then show ?thesis using ne by (simp add: Exclude_def)
qed

theorem Exclude_invalid_path_witness:
  "(\<exists>p \<in> set [''not/a/slash/path'']. \<not> isGoPath p \<or> isl (ParsePathStringUnsafe test_env p)) \<and>
   (\<exists>err. Exclude test_env test_report [''not/a/slash/path''] = (test_report, Some err))"
proof -
  have h: "\<exists>p \<in> set [''not/a/slash/path'']. \<not> isGoPath p \<or> isl (ParsePathStringUnsafe test_env p)"
    by (simp add: isGoPath_def)
  from Exclude_invalid_path [OF h] h show ?thesis by blast
qed

text \<open>
  Claim C4. With an empty argument list each of \<open>Filter\<close>, \<open>Exclude\<close>,
  \<open>FilterRegexp\<close> and \<open>ExcludeRegexp\<close> returns the report unchanged, and
  \<open>Exclude\<close> returns a nil error.
\<close>

theorem empty_arguments_identity:
  "Filter E r [] = r \<and>
   Exclude E r [] = (r, None) \<and>
   FilterRegexp E r [] = Returns r \<and>
   ExcludeRegexp E r [] = Returns r"
  by (simp add: Filter_def Exclude_def FilterRegexp_def ExcludeRegexp_def)

section \<open>Rendering of details\<close>

text \<open>
  Claim C5. A modification whose \<open>From\<close> and \<open>To\<close> nodes both have the
  human-readable type \<open>string\<close> is rendered with the raw values: the addition is the
  value of \<open>To\<close>, the removal the value of \<open>From\<close>, and the kind is the string of
  the modification rune.
\<close>

theorem modification_of_strings:
  assumes "Detail.Kind d = MODIFICATION"
    and "Detail.From d = Some from"
    and "Detail.To d = Some to"
    and "humanReadableType E (Some from) = Returns ''string''"
    and "humanReadableType E (Some to) = Returns ''string''"
  shows "generateJSONDetailOutput E d =
           Returns (\<lparr>JSONDiffDetail.Kind = runeString E MODIFICATION,
                     Addition = Node.Value to, Removal = Node.Value from\<rparr>, None)"
  using assms
  by (simp add: generateJSONDetailOutput_def generateJSONDetailOutputModification_def)

theorem modification_of_strings_witness:
  "generateJSONDetailOutput test_env
     \<lparr>Detail.Kind = MODIFICATION, Detail.From = Some (str_node ''a''), Detail.To = Some (str_node ''b'')\<rparr> =
   Returns (\<lparr>JSONDiffDetail.Kind = ''~'', Addition = ''b'', Removal = ''a''\<rparr>, None)"
proof -
  have t: "humanReadableType test_env (Some (str_node v)) = Returns ''string''" for v
    by (simp add: test_env_def str_node_def)
  from modification_of_strings [of
      "\<lparr>Detail.Kind = MODIFICATION, Detail.From = Some (str_node ''a''), Detail.To = Some (str_node ''b'')\<rparr>"
      "str_node ''a''" "str_node ''b''" test_env, OF _ _ _ t t]
  show ?thesis by (simp add: test_env_def str_node_def)
qed

text \<open>
  An error of a detail is the result of the whole render: the loops of
  \<open>generateJSONDiffOutput\<close> and \<open>GenReport\<close> return at the first one.
\<close>

lemma generateJSONDiffOutput_loop_error:
  assumes "list_all (\<lambda>d. \<exists>x. generateJSONDetailOutput E d = Returns (x, None)) pre"
    and "generateJSONDetailOutput E detail = Returns (y, Some err)"
  shows "generateJSONDiffOutput_loop E i (pre @ detail # post) details = Returns (Inl err)"
  using assms
proof (induction pre arbitrary: i details)
  case Nil
  then show ?case by simp
next
  case (Cons d pre)
  then obtain x where "generateJSONDetailOutput E d = Returns (x, None)" by auto
  with Cons show ?case by simp
qed

lemma GenReport_loop_error:
  assumes "list_all (\<lambda>d. \<exists>j. generateJSONDiffOutput E d g s = Returns (Inr j)) pre"
    and "generateJSONDiffOutput E diff g s = Returns (Inl err)"
  shows "GenReport_loop E g s i (pre @ diff # post) diffs = Returns (Inl err)"
  using assms
proof (induction pre arbitrary: i diffs)
  case Nil
  then show ?case by simp
next
  case (Cons d pre)
  then obtain j where "generateJSONDiffOutput E d g s = Returns (Inr j)" by auto
  with Cons show ?case by simp
qed

lemma GenReport_aborts:
  assumes "Report.Diffs (Report report) = dpre @ diff # dpost"
    and "Diff.Details diff = pre @ detail # post"
    and "list_all (\<lambda>d. \<exists>j. generateJSONDiffOutput E d (UseGoPatchPaths report)
            (1 < length (Documents (Report.From (Report report)))) = Returns (Inr j)) dpre"
    and "list_all (\<lambda>d. \<exists>x. generateJSONDetailOutput E d = Returns (x, None)) pre"
    and "generateJSONDetailOutput E detail = Returns (y, Some err)"
  shows "GenReport E report = Returns (Inl err)"
proof -
  have "generateJSONDiffOutput E diff g s = Returns (Inl err)" for g s
    using generateJSONDiffOutput_loop_error [OF assms(4,5)] assms(2)
    by (simp add: generateJSONDiffOutput_def)
  from GenReport_loop_error [OF assms(3) this] assms(1)
  show ?thesis by (simp add: GenReport_def Let_def)
qed

text \<open>
  Claim C6. A modification whose nodes both have the type \<open>binary\<close>: both values are
  decoded, \<open>From\<close> first, and the removal and the addition are the hex dumps of the
  decoded \<open>From\<close> and \<open>To\<close>. When either decoding fails the error is returned, with a
  detail that has neither an addition nor a removal, also when the other side decodes;
  and \<open>GenReport\<close> of a report that reaches this detail returns that error.
\<close>

theorem modification_of_binaries:
  assumes "Detail.Kind d = MODIFICATION"
    and "Detail.From d = Some fromNode"
    and "Detail.To d = Some toNode"
    and "humanReadableType E (Some fromNode) = Returns ''binary''"
    and "humanReadableType E (Some toNode) = Returns ''binary''"
  shows "generateJSONDetailOutput E d =
           (case DecodeString E (Node.Value fromNode) of
              Inl err \<Rightarrow>
                Returns (\<lparr>JSONDiffDetail.Kind = runeString E MODIFICATION,
                          Addition = '''', Removal = ''''\<rparr>, Some err)
            | Inr from \<Rightarrow>
                (case DecodeString E (Node.Value toNode) of
                   Inl err \<Rightarrow>
                     Returns (\<lparr>JSONDiffDetail.Kind = runeString E MODIFICATION,
                               Addition = '''', Removal = ''''\<rparr>, Some err)
                 | Inr to \<Rightarrow>
                     Returns (\<lparr>JSONDiffDetail.Kind = runeString E MODIFICATION,
                               Addition = Dump E to, Removal = Dump E from\<rparr>, None))) \<and>
         (\<forall>report dpre diff dpost pre post err.
            (DecodeString E (Node.Value fromNode) = Inl err \<or>
             (\<exists>from. DecodeString E (Node.Value fromNode) = Inr from) \<and>
             DecodeString E (Node.Value toNode) = Inl err) \<and>
            Report.Diffs (Report report) = dpre @ diff # dpost \<and>
            Diff.Details diff = pre @ d # post \<and>
            list_all (\<lambda>d. \<exists>j. generateJSONDiffOutput E d (UseGoPatchPaths report)
               (1 < length (Documents (Report.From (Report report)))) = Returns (Inr j)) dpre \<and>
            list_all (\<lambda>d. \<exists>x. generateJSONDetailOutput E d = Returns (x, None)) pre \<longrightarrow>
            GenReport E report = Returns (Inl err))"
proof (intro conjI allI impI)
  show detail: "generateJSONDetailOutput E d =
           (case DecodeString E (Node.Value fromNode) of
              Inl err \<Rightarrow>
                Returns (\<lparr>JSONDiffDetail.Kind = runeString E MODIFICATION,
                          Addition = '''', Removal = ''''\<rparr>, Some err)
            | Inr from \<Rightarrow>
                (case DecodeString E (Node.Value toNode) of
                   Inl err \<Rightarrow>
                     Returns (\<lparr>JSONDiffDetail.Kind = runeString E MODIFICATION,
                               Addition = '''', Removal = ''''\<rparr>, Some err)
                 | Inr to \<Rightarrow>
                     Returns (\<lparr>JSONDiffDetail.Kind = runeString E MODIFICATION,
                               Addition = Dump E to, Removal = Dump E from\<rparr>, None)))"
    using assms
    by (simp add: generateJSONDetailOutput_def generateJSONDetailOutputModification_def
          split: sum.splits)
  fix report :: "'a JSONReport" and dpre diff dpost pre post err
  assume h: "(DecodeString E (Node.Value fromNode) = Inl err \<or>
             (\<exists>from. DecodeString E (Node.Value fromNode) = Inr from) \<and>
             DecodeString E (Node.Value toNode) = Inl err) \<and>
            Report.Diffs (Report report) = dpre @ diff # dpost \<and>
            Diff.Details diff = pre @ d # post \<and>
            list_all (\<lambda>d. \<exists>j. generateJSONDiffOutput E d (UseGoPatchPaths report)
               (1 < length (Documents (Report.From (Report report)))) = Returns (Inr j)) dpre \<and>
            list_all (\<lambda>d. \<exists>x. generateJSONDetailOutput E d = Returns (x, None)) pre"
  then have "generateJSONDetailOutput E d =
      Returns (\<lparr>JSONDiffDetail.Kind = runeString E MODIFICATION,
                Addition = '''', Removal = ''''\<rparr>, Some err)"
    using detail by auto
  with h show "GenReport E report = Returns (Inl err)"
    using GenReport_aborts [of report dpre diff dpost pre d post E _ err] by blast
qed

theorem modification_of_binaries_witness:
  "generateJSONDetailOutput test_env
     \<lparr>Detail.Kind = MODIFICATION, Detail.From = Some (bin_node ''QQ==''), Detail.To = Some (bin_node ''Qg=='')\<rparr> =
   Returns (\<lparr>JSONDiffDetail.Kind = ''~'', Addition = ''hex Qg=='', Removal = ''hex QQ==''\<rparr>, None) \<and>
   generateJSONDetailOutput test_env
     \<lparr>Detail.Kind = MODIFICATION, Detail.From = Some (bin_node ''QQ==''), Detail.To = Some (bin_node ''!'')\<rparr> =
   Returns (\<lparr>JSONDiffDetail.Kind = ''~'', Addition = '''', Removal = ''''\<rparr>,
            Some (LibError ''illegal base64 data'')) \<and>
   generateJSONDetailOutput test_env
     \<lparr>Detail.Kind = MODIFICATION, Detail.From = Some (bin_node ''!''), Detail.To = Some (bin_node ''Qg=='')\<rparr> =
   Returns (\<lparr>JSONDiffDetail.Kind = ''~'', Addition = '''', Removal = ''''\<rparr>,
            Some (LibError ''illegal base64 data'')) \<and>
   GenReport test_env binary_json_report = Returns (Inl (LibError ''illegal base64 data''))"
proof -
  have t: "humanReadableType test_env (Some (bin_node v)) = Returns ''binary''" for v
    by (simp add: test_env_def bin_node_def)
  note m = modification_of_binaries [where E = test_env, OF _ _ _ t t]
  let ?d = "\<lparr>Detail.Kind = MODIFICATION, Detail.From = Some (bin_node ''QQ==''), Detail.To = Some (bin_node ''!'')\<rparr>"
  let ?a = "\<lparr>Detail.Kind = ADDITION, Detail.From = None, Detail.To = None\<rparr>"
  have kd: "Detail.Kind ?d = MODIFICATION" and fr: "Detail.From ?d = Some (bin_node ''QQ=='')"
    and to: "Detail.To ?d = Some (bin_node ''!'')"
    by simp_all
  have p1: "generateJSONDiffOutput test_env (test_diff (Some ''/a'')) True False =
      Returns (Inr \<lparr>JSONDiff.Path = ''/a'',
        JSONDiff.Details = [\<lparr>JSONDiffDetail.Kind = ''+'', Addition = ''<v>'', Removal = ''''\<rparr>]\<rparr>)"
    by (simp add: generateJSONDiffOutput_def generateJSONDetailOutput_def jsonString_def
          test_diff_def str_node_def test_env_def)
  have p2: "generateJSONDetailOutput test_env ?a =
      Returns (\<lparr>JSONDiffDetail.Kind = ''+'', Addition = ''null'', Removal = ''''\<rparr>, None)"
    by (simp add: generateJSONDetailOutput_def jsonString_def test_env_def)
  have h: "(DecodeString test_env (Node.Value (bin_node ''QQ=='')) = Inl (LibError ''illegal base64 data'') \<or>
      (\<exists>from. DecodeString test_env (Node.Value (bin_node ''QQ=='')) = Inr from) \<and>
      DecodeString test_env (Node.Value (bin_node ''!'')) = Inl (LibError ''illegal base64 data'')) \<and>
     Report.Diffs (Report binary_json_report) =
       [test_diff (Some ''/a'')] @ \<lparr>Diff.Path = Some ''/b'', Diff.Details = [?a, ?d]\<rparr> # [] \<and>
     Diff.Details \<lparr>Diff.Path = Some ''/b'', Diff.Details = [?a, ?d]\<rparr> = [?a] @ ?d # [] \<and>
     list_all (\<lambda>d. \<exists>j. generateJSONDiffOutput test_env d (UseGoPatchPaths binary_json_report)
        (1 < length (Documents (Report.From (Report binary_json_report)))) = Returns (Inr j))
        [test_diff (Some ''/a'')] \<and>
     list_all (\<lambda>d. \<exists>x. generateJSONDetailOutput test_env d = Returns (x, None)) [?a]"
    using p1 p2
    by (simp add: binary_json_report_def test_file_def bin_node_def test_env_def)
  note g = modification_of_binaries [where E = test_env, OF kd fr to t t, THEN conjunct2,
      rule_format, OF h]
  show ?thesis
    using m [of "\<lparr>Detail.Kind = MODIFICATION, Detail.From = Some (bin_node ''QQ==''), Detail.To = Some (bin_node ''Qg=='')\<rparr>" "''QQ==''" "''Qg==''", THEN conjunct1]
      m [of ?d "''QQ==''" "''!''", THEN conjunct1]
      m [of "\<lparr>Detail.Kind = MODIFICATION, Detail.From = Some (bin_node ''!''), Detail.To = Some (bin_node ''Qg=='')\<rparr>" "''!''" "''Qg==''", THEN conjunct1]
      g
    by (simp add: test_env_def bin_node_def)
qed

lemma take_Suc_update:
  "i < length xs \<Longrightarrow> take (Suc i) (xs[i := t]) = take i xs @ [t]"
  by (simp add: take_Suc_conv_app_nth)

lemma asJSONArray_loop_texts:
  "list_all2 (\<lambda>n t. if Node.Value n = '''' then ToCompactJSON E n = Inr t
                      else t = Node.Value n) ns texts \<Longrightarrow>
   length result = i + length ns \<Longrightarrow>
   asJSONArray_loop E i (map Some ns) result = Returns (Inr (take i result @ texts))"
proof (induction ns texts arbitrary: i result rule: list_all2_induct)
  case Nil
  then show ?case by simp
next
  case (Cons n ns t texts)
  have i: "i < length result" using Cons.prems by simp
  have len: "length (result[i := t]) = Suc i + length ns" using Cons.prems by simp
  have step: "asJSONArray_loop E (Suc i) (map Some ns) (result[i := t]) =
      Returns (Inr (take i result @ t # texts))"
    using Cons.IH [OF len] i by (simp add: take_Suc_update)
  show ?case
  proof (cases "Node.Value n = ''''")
    case True
    with Cons.hyps have "ToCompactJSON E n = Inr t" by simp
    then have "jsonString E (Some n) = Inr t" by (simp add: jsonString_def)
    with True step show ?thesis by simp
  next
    case False
    with Cons.hyps have "t = Node.Value n" by simp
    with False step show ?thesis by simp
  qed
qed

lemma asJSONArray_texts:
  assumes "Node.Content sn = map Some ns"
    and "list_all2 (\<lambda>n t. if Node.Value n = '''' then ToCompactJSON E n = Inr t
                           else t = Node.Value n) ns texts"
  shows "asJSONArray E (Some sn) = Returns (MarshalStrings E texts)"
  using asJSONArray_loop_texts [OF assms(2), of "replicate (length ns) ''''" 0] assms(1)
  by (simp add: asJSONArray_def)

text \<open>
  Claim C7. An order change whose \<open>From\<close> node is not a sequence is rendered, without
  error, as a detail with neither addition nor removal. When it is a sequence, the removal
  is the JSON encoding of the array of the texts of the children of \<open>From\<close>, in order,
  and the addition that of the children of \<open>To\<close>, where the text of a child is its
  value when that is not empty and otherwise what the compact serializer
  \<open>ToCompactJSON\<close> returns for it; this holds whenever the serializer and both
  encodings return without error.
\<close>

theorem orderchange_detail:
  assumes "Detail.Kind d = ORDERCHANGE"
    and "Detail.From d = Some fromNode"
  shows "(Node.Kind fromNode \<noteq> SequenceNode \<longrightarrow>
            generateJSONDetailOutput E d =
              Returns (\<lparr>JSONDiffDetail.Kind = runeString E ORDERCHANGE,
                        Addition = '''', Removal = ''''\<rparr>, None)) \<and>
         (\<forall>toNode fromEntries toEntries fromTexts toTexts removal addition.
            Node.Kind fromNode = SequenceNode \<and>
            Detail.To d = Some toNode \<and>
            Node.Content fromNode = map Some fromEntries \<and>
            Node.Content toNode = map Some toEntries \<and>
            list_all2 (\<lambda>n t. if Node.Value n = '''' then ToCompactJSON E n = Inr t
                               else t = Node.Value n) fromEntries fromTexts \<and>
            list_all2 (\<lambda>n t. if Node.Value n = '''' then ToCompactJSON E n = Inr t
                               else t = Node.Value n) toEntries toTexts \<and>
            MarshalStrings E fromTexts = Inr removal \<and>
            MarshalStrings E toTexts = Inr addition \<longrightarrow>
            generateJSONDetailOutput E d =
              Returns (\<lparr>JSONDiffDetail.Kind = runeString E ORDERCHANGE,
                        Addition = addition, Removal = removal\<rparr>, None))"
proof (intro conjI allI impI)
  assume "Node.Kind fromNode \<noteq> SequenceNode"
  with assms show "generateJSONDetailOutput E d =
      Returns (\<lparr>JSONDiffDetail.Kind = runeString E ORDERCHANGE,
                Addition = '''', Removal = ''''\<rparr>, None)"
    by (simp add: generateJSONDetailOutput_def generateJSONDetailOutputOrderchange_def)
next
  fix toNode fromEntries toEntries fromTexts toTexts removal addition
  assume h: "Node.Kind fromNode = SequenceNode \<and>
            Detail.To d = Some toNode \<and>
            Node.Content fromNode = map Some fromEntries \<and>
            Node.Content toNode = map Some toEntries \<and>
            list_all2 (\<lambda>n t. if Node.Value n = '''' then ToCompactJSON E n = Inr t
                               else t = Node.Value n) fromEntries fromTexts \<and>
            list_all2 (\<lambda>n t. if Node.Value n = '''' then ToCompactJSON E n = Inr t
                               else t = Node.Value n) toEntries toTexts \<and>
            MarshalStrings E fromTexts = Inr removal \<and>
            MarshalStrings E toTexts = Inr addition"
  then have f: "asJSONArray E (Some fromNode) = Returns (Inr removal)"
    using asJSONArray_texts [of fromNode fromEntries E fromTexts] by simp
  from h have t: "asJSONArray E (Some toNode) = Returns (Inr addition)"
    using asJSONArray_texts [of toNode toEntries E toTexts] by simp
  from assms h f t show "generateJSONDetailOutput E d =
      Returns (\<lparr>JSONDiffDetail.Kind = runeString E ORDERCHANGE,
                Addition = addition, Removal = removal\<rparr>, None)"
    by (simp add: generateJSONDetailOutput_def generateJSONDetailOutputOrderchange_def)
qed

theorem orderchange_detail_witness:
  "generateJSONDetailOutput test_env
     \<lparr>Detail.Kind = ORDERCHANGE, Detail.From = Some map_node, Detail.To = Some map_node\<rparr> =
   Returns (\<lparr>JSONDiffDetail.Kind = ''^'', Addition = '''', Removal = ''''\<rparr>, None) \<and>
   generateJSONDetailOutput test_env
     \<lparr>Detail.Kind = ORDERCHANGE,
      Detail.From = Some (seq_node [str_node ''x'', str_node ''y'', str_node ''z'']),
      Detail.To = Some (seq_node [str_node ''z'', str_node ''x'', str_node ''y''])\<rparr> =
   Returns (\<lparr>JSONDiffDetail.Kind = ''^'', Addition = ''[z;x;y;]'', Removal = ''[x;y;z;]''\<rparr>, None) \<and>
   ToCompactJSON test_env (str_node '''') = Inr ''<>'' \<and>
   ToCompactJSON test_env map_node = Inr ''<>'' \<and>
   generateJSONDetailOutput test_env
     \<lparr>Detail.Kind = ORDERCHANGE,
      Detail.From = Some (seq_node [str_node ''x'', str_node '''', map_node]),
      Detail.To = Some (seq_node [map_node, str_node ''x'', str_node ''''])\<rparr> =
   Returns (\<lparr>JSONDiffDetail.Kind = ''^'', Addition = ''[<>;x;<>;]'', Removal = ''[x;<>;<>;]''\<rparr>, None)"
proof -
  have k: "Node.Kind map_node \<noteq> SequenceNode" by (simp add: map_node_def)
  have a: "generateJSONDetailOutput test_env
     \<lparr>Detail.Kind = ORDERCHANGE, Detail.From = Some map_node, Detail.To = Some map_node\<rparr> =
     Returns (\<lparr>JSONDiffDetail.Kind = ''^'', Addition = '''', Removal = ''''\<rparr>, None)"
    using orderchange_detail [of
        "\<lparr>Detail.Kind = ORDERCHANGE, Detail.From = Some map_node, Detail.To = Some map_node\<rparr>"
        map_node test_env] k
    by (simp add: test_env_def)
  have s1: "ToCompactJSON test_env (str_node '''') = Inr ''<>''"
    and s2: "ToCompactJSON test_env map_node = Inr ''<>''"
    by (simp_all add: test_env_def str_node_def map_node_def)
  have v: "Node.Value (str_node w) = w" "Node.Value map_node = ''''" for w
    by (simp_all add: str_node_def map_node_def)
  have sq: "Node.Kind (seq_node ns) = SequenceNode" "Node.Content (seq_node ns) = map Some ns" for ns
    by (simp_all add: seq_node_def)
  have ms: "MarshalStrings test_env [p, q, r] = Inr (''['' @ p @ '';'' @ q @ '';'' @ r @ '';]'')"
    for p q r
    by (simp add: test_env_def)
  let ?f = "[str_node ''x'', str_node ''y'', str_node ''z'']"
  let ?t = "[str_node ''z'', str_node ''x'', str_node ''y'']"
  let ?d = "\<lparr>Detail.Kind = ORDERCHANGE, Detail.From = Some (seq_node ?f), Detail.To = Some (seq_node ?t)\<rparr>"
  have h: "Node.Kind (seq_node ?f) = SequenceNode \<and>
      Detail.To ?d = Some (seq_node ?t) \<and>
      Node.Content (seq_node ?f) = map Some ?f \<and>
      Node.Content (seq_node ?t) = map Some ?t \<and>
      list_all2 (\<lambda>n t. if Node.Value n = '''' then ToCompactJSON test_env n = Inr t
                         else t = Node.Value n) ?f [''x'', ''y'', ''z''] \<and>
      list_all2 (\<lambda>n t. if Node.Value n = '''' then ToCompactJSON test_env n = Inr t
                         else t = Node.Value n) ?t [''z'', ''x'', ''y''] \<and>
      MarshalStrings test_env [''x'', ''y'', ''z''] = Inr ''[x;y;z;]'' \<and>
      MarshalStrings test_env [''z'', ''x'', ''y''] = Inr ''[z;x;y;]''"
    by (simp add: sq v ms)
  have kd: "Detail.Kind ?d = ORDERCHANGE" by simp
  have fr: "Detail.From ?d = Some (seq_node ?f)" by simp
  note th = orderchange_detail [OF kd fr, of test_env, THEN conjunct2, rule_format, OF h]
  have b: "generateJSONDetailOutput test_env ?d =
     Returns (\<lparr>JSONDiffDetail.Kind = ''^'', Addition = ''[z;x;y;]'', Removal = ''[x;y;z;]''\<rparr>, None)"
    using th by (simp add: test_env_def)
  let ?g = "[str_node ''x'', str_node '''', map_node]"
  let ?u = "[map_node, str_node ''x'', str_node '''']"
  let ?e = "\<lparr>Detail.Kind = ORDERCHANGE, Detail.From = Some (seq_node ?g), Detail.To = Some (seq_node ?u)\<rparr>"
  have h2: "Node.Kind (seq_node ?g) = SequenceNode \<and>
      Detail.To ?e = Some (seq_node ?u) \<and>
      Node.Content (seq_node ?g) = map Some ?g \<and>
      Node.Content (seq_node ?u) = map Some ?u \<and>
      list_all2 (\<lambda>n t. if Node.Value n = '''' then ToCompactJSON test_env n = Inr t
                         else t = Node.Value n) ?g [''x'', ''<>'', ''<>''] \<and>
      list_all2 (\<lambda>n t. if Node.Value n = '''' then ToCompactJSON test_env n = Inr t
                         else t = Node.Value n) ?u [''<>'', ''x'', ''<>''] \<and>
      MarshalStrings test_env [''x'', ''<>'', ''<>''] = Inr ''[x;<>;<>;]'' \<and>
      MarshalStrings test_env [''<>'', ''x'', ''<>''] = Inr ''[<>;x;<>;]''"
    by (simp add: sq v ms s1 s2)
  have kd2: "Detail.Kind ?e = ORDERCHANGE" by simp
  have fr2: "Detail.From ?e = Some (seq_node ?g)" by simp
  note th2 = orderchange_detail [OF kd2 fr2, of test_env, THEN conjunct2, rule_format, OF h2]
  have c: "generateJSONDetailOutput test_env ?e =
     Returns (\<lparr>JSONDiffDetail.Kind = ''^'', Addition = ''[<>;x;<>;]'', Removal = ''[x;<>;<>;]''\<rparr>, None)"
    using th2 by (simp add: test_env_def)
  from a b c s1 s2 show ?thesis by simp
qed

text \<open>
  Claim C8. An addition is rendered with the addition field only: the compact
  serialization of the \<open>To\<close> node, and the four characters \<open>null\<close> when the node is
  nil; the removal stays empty.
\<close>

theorem addition_detail:
  assumes "Detail.Kind d = ADDITION"
  shows "(Detail.To d = None \<longrightarrow>
            generateJSONDetailOutput E d =
              Returns (\<lparr>JSONDiffDetail.Kind = runeString E ADDITION,
                        Addition = ''null'', Removal = ''''\<rparr>, None)) \<and>
         (\<forall>n s. Detail.To d = Some n \<and> ToCompactJSON E n = Inr s \<longrightarrow>
            generateJSONDetailOutput E d =
              Returns (\<lparr>JSONDiffDetail.Kind = runeString E ADDITION,
                        Addition = s, Removal = ''''\<rparr>, None))"
  using assms
  by (simp add: generateJSONDetailOutput_def jsonString_def)

theorem addition_detail_witness:
  "generateJSONDetailOutput test_env
     \<lparr>Detail.Kind = ADDITION, Detail.From = None, Detail.To = None\<rparr> =
   Returns (\<lparr>JSONDiffDetail.Kind = ''+'', Addition = ''null'', Removal = ''''\<rparr>, None) \<and>
   generateJSONDetailOutput test_env
     \<lparr>Detail.Kind = ADDITION, Detail.From = None, Detail.To = Some (str_node ''v'')\<rparr> =
   Returns (\<lparr>JSONDiffDetail.Kind = ''+'', Addition = ''<v>'', Removal = ''''\<rparr>, None)"
proof -
  have s: "ToCompactJSON test_env (str_node ''v'') = Inr ''<v>''"
    by (simp add: test_env_def str_node_def)
  show ?thesis
    using addition_detail [of "\<lparr>Detail.Kind = ADDITION, Detail.From = None, Detail.To = None\<rparr>" test_env]
      addition_detail [of "\<lparr>Detail.Kind = ADDITION, Detail.From = None, Detail.To = Some (str_node ''v'')\<rparr>" test_env] s
    by (simp add: test_env_def)
qed

lemma asJSONArray_loop_step:
  assumes "asJSONArray_loop E i (Some n # entries) result = Returns (Inr res)"
  obtains t where "elementText E n = Inr t"
    and "asJSONArray_loop E (Suc i) entries (result[i := t]) = Returns (Inr res)"
proof (cases "Node.Value n = ''''")
  case True
  with assms obtain s where "jsonString E (Some n) = Inr s"
    and "asJSONArray_loop E (Suc i) entries (result[i := s]) = Returns (Inr res)"
    by (auto split: sum.splits)
  with True that show ?thesis by (simp add: elementText_def jsonString_def)
next
  case False
  with assms have "asJSONArray_loop E (Suc i) entries (result[i := Node.Value n]) = Returns (Inr res)"
    by simp
  with False that show ?thesis by (simp add: elementText_def)
qed

lemma asJSONArray_loop_entries:
  "asJSONArray_loop E i entries result = Returns (Inr res) \<Longrightarrow>
   length result = i + length entries \<Longrightarrow>
   length res = length result \<and> take i res = take i result \<and>
   (\<forall>k < length entries. \<exists>n. entries ! k = Some n \<and> elementText E n = Inr (res ! (i + k)))"
proof (induction entries arbitrary: i result)
  case Nil
  then show ?case by simp
next
  case (Cons entry entries)
  from Cons.prems(1) obtain n where n: "entry = Some n"
    by (cases entry) simp_all
  from Cons.prems(1) have "asJSONArray_loop E i (Some n # entries) result = Returns (Inr res)"
    unfolding n .
  then obtain t where tx: "elementText E n = Inr t"
    and run: "asJSONArray_loop E (Suc i) entries (result[i := t]) = Returns (Inr res)"
    by (rule asJSONArray_loop_step)
  have i: "i < length result" using Cons.prems(2) by simp
  have len: "length (result[i := t]) = Suc i + length entries"
    using Cons.prems(2) by simp
  from Cons.IH [OF run len]
  have l: "length res = length result"
    and tk: "take (Suc i) res = take (Suc i) (result[i := t])"
    and rest: "\<forall>k < length entries. \<exists>m. entries ! k = Some m \<and>
      elementText E m = Inr (res ! (Suc i + k))"
    by simp_all
  from tk i l have "take i res @ [res ! i] = take i result @ [t]"
    by (simp add: take_Suc_conv_app_nth)
  then have at: "res ! i = t" and before: "take i res = take i result"
    by simp_all
  have "\<exists>m. (entry # entries) ! k = Some m \<and> elementText E m = Inr (res ! (i + k))"
    if "k < length (entry # entries)" for k
  proof (cases k)
    case 0
    with n tx at show ?thesis by simp
  next
    case (Suc j)
    with that rest show ?thesis by simp
  qed
  with l before show ?case by blast
qed

text \<open>
  Claim C10. When the loop of \<open>asJSONArray\<close> returns its array, the entry of a child
  whose value is the empty string is the compact serialization of that child (so it is
  not the empty string, as long as the serializer returns none), and the entry of any
  other child is its value; the array is what is encoded.
\<close>

theorem empty_value_entry_serialized:
  assumes "asJSONArray_loop E 0 (Node.Content sn) (replicate (length (Node.Content sn)) '''') =
             Returns (Inr result)"
    and "k < length (Node.Content sn)"
    and "Node.Content sn ! k = Some n"
  shows "asJSONArray E (Some sn) = Returns (MarshalStrings E result) \<and>
         length result = length (Node.Content sn) \<and>
         (Node.Value n = '''' \<longrightarrow> ToCompactJSON E n = Inr (result ! k)) \<and>
         (Node.Value n = '''' \<and> (\<forall>m s. ToCompactJSON E m = Inr s \<longrightarrow> s \<noteq> '''') \<longrightarrow>
            result ! k \<noteq> '''') \<and>
         (Node.Value n \<noteq> '''' \<longrightarrow> result ! k = Node.Value n)"
proof -
  from asJSONArray_loop_entries [OF assms(1)]
  have l: "length result = length (Node.Content sn)"
    and al: "\<forall>j < length (Node.Content sn). \<exists>m. Node.Content sn ! j = Some m \<and>
      elementText E m = Inr (result ! j)"
    by simp_all
  from al assms(2) obtain m where "Node.Content sn ! k = Some m"
    and "elementText E m = Inr (result ! k)"
    by blast
  with assms(3) have e: "elementText E n = Inr (result ! k)" by simp
  have a: "asJSONArray E (Some sn) = Returns (MarshalStrings E result)"
    using assms(1) by (simp add: asJSONArray_def)
  have e1: "Node.Value n = '''' \<longrightarrow> ToCompactJSON E n = Inr (result ! k)"
    using e by (auto simp: elementText_def jsonString_def)
  have e2: "Node.Value n \<noteq> '''' \<longrightarrow> result ! k = Node.Value n"
    using e by (auto simp: elementText_def)
  have e3: "Node.Value n = '''' \<and> (\<forall>m s. ToCompactJSON E m = Inr s \<longrightarrow> s \<noteq> '''') \<longrightarrow>
      result ! k \<noteq> ''''"
    using e1 by blast
  from a l e1 e2 e3 show ?thesis by blast
qed

theorem empty_value_entry_serialized_witness:
  "asJSONArray test_env (Some (seq_node [str_node ''x'', str_node '''', map_node])) =
     Returns (Inr ''[x;<>;<>;]'') \<and>
   ToCompactJSON test_env (str_node '''') = Inr ([''x'', ''<>'', ''<>''] ! 1) \<and>
   ToCompactJSON test_env map_node = Inr ([''x'', ''<>'', ''<>''] ! 2) \<and>
   [''x'', ''<>'', ''<>''] ! 0 = Node.Value (str_node ''x'') \<and>
   [''x'', ''<>'', ''<>''] ! 1 \<noteq> ''''"
proof -
  let ?sn = "seq_node [str_node ''x'', str_node '''', map_node]"
  let ?res = "[''x'', ''<>'', ''<>'']"
  have run: "asJSONArray_loop test_env 0 (Node.Content ?sn)
      (replicate (length (Node.Content ?sn)) '''') = Returns (Inr ?res)"
    by (simp add: seq_node_def str_node_def map_node_def jsonString_def test_env_def)
  have c0: "Node.Content ?sn ! 0 = Some (str_node ''x'')"
    and c1: "Node.Content ?sn ! 1 = Some (str_node '''')"
    and c2: "Node.Content ?sn ! 2 = Some map_node"
    by (simp_all add: seq_node_def)
  have l0: "0 < length (Node.Content ?sn)" and l1: "1 < length (Node.Content ?sn)"
    and l2: "2 < length (Node.Content ?sn)"
    by (simp_all add: seq_node_def)
  have v: "Node.Value (str_node '''') = ''''" "Node.Value map_node = ''''"
    "Node.Value (str_node ''x'') \<noteq> ''''"
    by (simp_all add: str_node_def map_node_def)
  have m: "MarshalStrings test_env ?res = Inr ''[x;<>;<>;]''"
    by (simp add: test_env_def)
  have ne: "\<forall>m s. ToCompactJSON test_env m = Inr s \<longrightarrow> s \<noteq> ''''"
    by (auto simp: test_env_def)
  from empty_value_entry_serialized [OF run l0 c0] empty_value_entry_serialized [OF run l1 c1]
    empty_value_entry_serialized [OF run l2 c2] v m ne
  show ?thesis by simp
qed

section \<open>Writing the report\<close>

text \<open>
  A document that fits the buffer is only copied by \<open>WriteString\<close>, which returns no
  error; the sink is first written to by the deferred flush, whose error is dropped.
\<close>

lemma WriteReport_small_document:
  assumes "GenReport E report = Returns (Inr r)"
    and "MarshalReport E r = Inr b"
    and "length b \<le> defaultBufSize"
  shows "\<exists>out'. WriteReport E write report out = Returns (out', None)"
proof -
  have "WriteString write (NewWriter out) b = ((NewWriter out)\<lparr>w_buf := b\<rparr>, None)"
    using assms(3)
    by (subst WriteString.simps) (simp add: NewWriter_def Available_def)
  with assms(1,2) show ?thesis
    by (simp add: WriteReport_def)
qed

text \<open>
  Claim C9, at a report without diffs and a sink whose writes fail: \<open>WriteReport\<close>
  makes one write to the sink, which fails, and returns a nil error.
\<close>

theorem WriteReport_drops_flush_error:
  "WriteReport test_env failing_write empty_json_report 0 = Returns (1, None)"
proof -
  have g: "GenReport test_env empty_json_report =
      Returns (Inr \<lparr>Summary = \<lparr>Changes = 0\<rparr>, Differences = []\<rparr>)"
    by (simp add: GenReport_def empty_json_report_def)
  have m: "MarshalReport test_env \<lparr>Summary = \<lparr>Changes = 0\<rparr>, Differences = []\<rparr> = Inr ''changes ''"
    by (simp add: test_env_def)
  have w: "WriteString failing_write (NewWriter 0) ''changes '' =
      ((NewWriter 0)\<lparr>w_buf := ''changes ''\<rparr>, None)"
    by (subst WriteString.simps) (simp add: NewWriter_def Available_def defaultBufSize_def)
  have f: "Flush failing_write ((NewWriter 0)\<lparr>w_buf := ''changes ''\<rparr>) =
      (\<lparr>w_err = Some (LibError ''write failed''), w_buf = ''changes '', w_wr = 1\<rparr>,
       Some (LibError ''write failed''))"
    by (simp add: Flush_def NewWriter_def failing_write_def Let_def)
  show ?thesis
    by (simp add: WriteReport_def g m w f)
qed

end
